theory Spec2Isabelle
  imports Complex_Main "HOL-Library.Monad_Syntax"
begin

section \<open>Time values and calendar arithmetic of the language\<close>

text \<open>
  \<^verbatim>\<open>src/utils/date.ts\<close> builds every date through the \<^verbatim>\<open>Date\<close> constructor and
  reads it back through \<^verbatim>\<open>getTime\<close>.  A time value is a number of milliseconds since
  1970-01-01T00:00:00Z, or \<^verbatim>\<open>NaN\<close> for an invalid date; \<open>None\<close> stands for \<^verbatim>\<open>NaN\<close>.
  All finite time values have magnitude at most \<open>8.64 * 10^15 < 2^53\<close>, so the
  double-precision numbers of the language represent them exactly and they are
  modelled as integers.
\<close>

type_synonym time_value = "int option"

definition msPerDay :: int where
  "msPerDay = 86400000"

definition maxTime :: int where
  "maxTime = 8640000000000000"

text \<open>\<^verbatim>\<open>TimeClip\<close> on an integral number: out of range gives \<^verbatim>\<open>NaN\<close>.\<close>

definition TimeClip :: "time_value \<Rightarrow> time_value" where
  "TimeClip tv =
     (case tv of
        None \<Rightarrow> None
      | Some t \<Rightarrow> if \<bar>t\<bar> > maxTime then None else Some t)"

definition DaysInYear :: "int \<Rightarrow> int" where
  "DaysInYear y =
     (if y mod 4 \<noteq> 0 then 365
      else if y mod 100 \<noteq> 0 then 366
      else if y mod 400 \<noteq> 0 then 365
      else 366)"

definition DayFromYear :: "int \<Rightarrow> int" where
  "DayFromYear y =
     365 * (y - 1970) + (y - 1969) div 4 - (y - 1901) div 100 + (y - 1601) div 400"

definition InLeapYear :: "int \<Rightarrow> int" where
  "InLeapYear y = (if DaysInYear y = 366 then 1 else 0)"

text \<open>
  Number of days of year \<open>y\<close> that precede its month \<open>mn\<close> (\<open>0\<close> is January); this
  is the table by which \<^verbatim>\<open>MonthFromTime\<close> is specified.
\<close>

definition DaysBeforeMonth :: "int \<Rightarrow> int \<Rightarrow> int" where
  "DaysBeforeMonth y mn =
     (if mn = 0 then 0
      else if mn = 1 then 31
      else [59, 90, 120, 151, 181, 212, 243, 273, 304, 334] ! nat (mn - 2) + InLeapYear y)"

text \<open>
  \<^verbatim>\<open>MakeDay(year, month, date)\<close> for integral arguments: the month may lie outside
  \<open>0..11\<close> and is folded into the year.
\<close>

definition MakeDay :: "int \<Rightarrow> int \<Rightarrow> int \<Rightarrow> int" where
  "MakeDay year month date =
     (let ym = year + month div 12;
          mn = month mod 12
      in DayFromYear ym + DaysBeforeMonth ym mn + date - 1)"

definition MakeTime :: "int \<Rightarrow> int \<Rightarrow> int \<Rightarrow> int \<Rightarrow> int" where
  "MakeTime hour minute sec ms = hour * 3600000 + minute * 60000 + sec * 1000 + ms"

definition MakeDate :: "int \<Rightarrow> int \<Rightarrow> int" where
  "MakeDate day time = day * msPerDay + time"

definition MakeFullYear :: "int \<Rightarrow> int" where
  "MakeFullYear y = (if 0 \<le> y \<and> y \<le> 99 then 1900 + y else y)"

text \<open>
  The inverse direction.  The language specifies the year of a day number \<open>d\<close> as the
  largest \<open>y\<close> with \<open>DayFromYear y \<le> d\<close>.  \<open>YearFromDay\<close> takes an estimate and
  corrects it by one year against \<open>DayFromYear\<close>; that this is the specified year is
  proved below (\<open>YearFromDay_bracket\<close>, \<open>YearFromDay_unique\<close>).
\<close>

definition YearFromDay :: "int \<Rightarrow> int" where
  "YearFromDay d =
     (let y = 1970 + (400 * d) div 146097
      in if DayFromYear (y + 1) \<le> d then y + 1
         else if DayFromYear y \<le> d then y
         else y - 1)"

definition DayWithinYear :: "int \<Rightarrow> int" where
  "DayWithinYear d = d - DayFromYear (YearFromDay d)"

definition MonthFromDay :: "int \<Rightarrow> int" where
  "MonthFromDay d =
     (let y = YearFromDay d; w = DayWithinYear d
      in if w < DaysBeforeMonth y 1 then 0
         else if w < DaysBeforeMonth y 2 then 1
         else if w < DaysBeforeMonth y 3 then 2
         else if w < DaysBeforeMonth y 4 then 3
         else if w < DaysBeforeMonth y 5 then 4
         else if w < DaysBeforeMonth y 6 then 5
         else if w < DaysBeforeMonth y 7 then 6
         else if w < DaysBeforeMonth y 8 then 7
         else if w < DaysBeforeMonth y 9 then 8
         else if w < DaysBeforeMonth y 10 then 9
         else if w < DaysBeforeMonth y 11 then 10
         else 11)"

definition DateFromDay :: "int \<Rightarrow> int" where
  "DateFromDay d = DayWithinYear d - DaysBeforeMonth (YearFromDay d) (MonthFromDay d) + 1"

section \<open>The host: clock and local time zone\<close>

text \<open>
  \<^verbatim>\<open>getAge\<close> reads the wall clock (\<^verbatim>\<open>Date.now()\<close>) and, through the three-argument
  \<^verbatim>\<open>Date\<close> constructor, the host's local time zone: \<open>localTZA h t\<close> is the offset in
  milliseconds of local time from UTC at the local time \<open>t\<close>.
\<close>

record host =
  now :: int
  localTZA :: "int \<Rightarrow> int"

definition UTC :: "host \<Rightarrow> int \<Rightarrow> int" where
  "UTC h t = t - localTZA h t"

text \<open>\<^verbatim>\<open>new Date(year, month, date)\<close>: local midnight of that day, as a time value.\<close>

definition Date_ymd :: "host \<Rightarrow> int \<Rightarrow> int \<Rightarrow> int \<Rightarrow> time_value" where
  "Date_ymd h year month date =
     (let yr = MakeFullYear year;
          finalDate = MakeDate (MakeDay yr month date) (MakeTime 0 0 0 0)
      in TimeClip (Some (UTC h finalDate)))"

section \<open>getAge\<close>

text \<open>
  \<^verbatim>\<open>
  export function getAge() {
      const birthday = new Date(2003, 8, 29);
      return Math.floor((Date.now() - birthday.getTime()) / 31556952000);
  }
  \<close>
  The subtraction is exact on time values.  The division is a division of doubles
  followed by \<^verbatim>\<open>Math.floor\<close>; on differences of time values this is the integer floor
  division \<open>div\<close> (\<open>floor_rounded_quotient\<close> below).  A \<^verbatim>\<open>NaN\<close> birthday makes the
  result \<^verbatim>\<open>NaN\<close>.
\<close>

definition birthday :: "host \<Rightarrow> time_value" where
  "birthday h = Date_ymd h 2003 8 29"

definition getAge :: "host \<Rightarrow> int option" where
  "getAge h =
     (case birthday h of
        None \<Rightarrow> None
      | Some b \<Rightarrow> Some ((now h - b) div 31556952000))"

text \<open>The local time that the constructor call denotes, before the zone is applied.\<close>

definition birthday_local :: int where
  "birthday_local = MakeDate (MakeDay (MakeFullYear 2003) 8 29) (MakeTime 0 0 0 0)"

text \<open>The instant of local midnight of a calendar day on the host (month \<open>0\<close> is January).\<close>

definition local_midnight :: "host \<Rightarrow> int \<Rightarrow> int \<Rightarrow> int \<Rightarrow> int" where
  "local_midnight h year month date =
     UTC h (MakeDate (MakeDay year month date) (MakeTime 0 0 0 0))"

section \<open>Date inputs and the one-argument Date constructor\<close>

text \<open>
  \<^verbatim>\<open>getFormattedDate(date: string | number | Date, ...)\<close> passes its first argument to
  \<^verbatim>\<open>new Date(date)\<close>.  A number is a finite value (every double is a rational), \<^verbatim>\<open>NaN\<close>
  or an infinity; a \<^verbatim>\<open>Date\<close> object is given by its time value.
\<close>

datatype jsnumber = Finite rat | NaN | PosInfinity | NegInfinity

datatype date_input = DateString string | DateNumber jsnumber | DateObject time_value

text \<open>\<^verbatim>\<open>TimeClip\<close> on a number: truncation towards zero inside the range.\<close>

definition TimeClipNumber :: "jsnumber \<Rightarrow> time_value" where
  "TimeClipNumber n =
     (case n of
        Finite r \<Rightarrow>
          if \<bar>r\<bar> > of_int maxTime then None
          else Some (if r < 0 then \<lceil>r\<rceil> else \<lfloor>r\<rfloor>)
      | _ \<Rightarrow> None)"

text \<open>
  Strings go through \<^verbatim>\<open>Date.parse\<close>.  The language fixes the result for its own
  date-time format; of that format the model recognises the complete UTC forms
  \<^verbatim>\<open>YYYY-MM-DDTHH:mm:ssZ\<close> and \<^verbatim>\<open>YYYY-MM-DDTHH:mm:ss.sssZ\<close> with every field in range.
  Every other string is left to the platform (\<open>parse_other\<close> below), which is free to
  return any time value or \<^verbatim>\<open>NaN\<close>.
\<close>

definition digit :: "char \<Rightarrow> int option" where
  "digit c =
     (let n = (of_char c :: nat)
      in if 48 \<le> n \<and> n \<le> 57 then Some (int n - 48) else None)"

definition number_of_digits :: "string \<Rightarrow> int option" where
  "number_of_digits s =
     (if s = [] then None
      else foldl (\<lambda>acc c. case acc of
                            None \<Rightarrow> None
                          | Some a \<Rightarrow> (case digit c of None \<Rightarrow> None | Some d \<Rightarrow> Some (10 * a + d)))
             (Some 0) s)"

definition DaysInMonth :: "int \<Rightarrow> int \<Rightarrow> int" where
  "DaysInMonth y mn =
     (if mn = 11 then 31 else DaysBeforeMonth y (mn + 1) - DaysBeforeMonth y mn)"

definition field :: "string \<Rightarrow> nat \<Rightarrow> nat \<Rightarrow> int option" where
  "field s pos len = number_of_digits (take len (drop pos s))"

definition parse_utc_date_time :: "string \<Rightarrow> int option" where
  "parse_utc_date_time s =
     (if length s = 20 \<or> length s = 24 then
        do {
          y \<leftarrow> field s 0 4;
          mo \<leftarrow> field s 5 2;
          d \<leftarrow> field s 8 2;
          h \<leftarrow> field s 11 2;
          mi \<leftarrow> field s 14 2;
          sec \<leftarrow> field s 17 2;
          ms \<leftarrow> (if length s = 24 then field s 20 3 else Some 0);
          if s ! 4 = CHR ''-'' \<and> s ! 7 = CHR ''-'' \<and> s ! 10 = CHR ''T''
             \<and> s ! 13 = CHR '':'' \<and> s ! 16 = CHR '':''
             \<and> (if length s = 24 then s ! 19 = CHR ''.'' \<and> s ! 23 = CHR ''Z''
                 else s ! 19 = CHR ''Z'')
             \<and> 1 \<le> mo \<and> mo \<le> 12 \<and> 1 \<le> d \<and> d \<le> DaysInMonth y (mo - 1)
             \<and> h \<le> 23 \<and> mi \<le> 59 \<and> sec \<le> 59
          then Some (MakeDate (MakeDay y (mo - 1) d) (MakeTime h mi sec ms))
          else None
        }
      else None)"

section \<open>Objects and object spread\<close>

text \<open>
  An options object is its list of own properties; the value \<open>None\<close> is the value
  \<^verbatim>\<open>undefined\<close>.  Reading a property that is absent gives \<^verbatim>\<open>undefined\<close> as well.
  The values themselves are opaque to the module (type \<open>'v\<close>).
\<close>

type_synonym 'v jsobject = "(string \<times> 'v option) list"

definition Get :: "'v jsobject \<Rightarrow> string \<Rightarrow> 'v option" where
  "Get obj k = (case map_of obj k of None \<Rightarrow> None | Some v \<Rightarrow> v)"

fun CreateDataProperty :: "'v jsobject \<Rightarrow> string \<Rightarrow> 'v option \<Rightarrow> 'v jsobject" where
  "CreateDataProperty [] k v = [(k, v)]"
| "CreateDataProperty ((k', v') # ps) k v =
     (if k' = k then (k, v) # ps else (k', v') # CreateDataProperty ps k v)"

definition CopyDataProperties :: "'v jsobject \<Rightarrow> 'v jsobject \<Rightarrow> 'v jsobject" where
  "CopyDataProperties target source =
     foldl (\<lambda>t (k, v). CreateDataProperty t k v) target source"

text \<open>The object literal \<^verbatim>\<open>{ ...a, ...b }\<close>: a fresh object, \<open>a\<close> copied in, then \<open>b\<close>.\<close>

definition spread :: "'v jsobject \<Rightarrow> 'v jsobject \<Rightarrow> 'v jsobject" where
  "spread a b = CopyDataProperties (CopyDataProperties [] a) b"

section \<open>The platform's date formatting\<close>

text \<open>
  \<^verbatim>\<open>Intl.DateTimeFormat\<close> and \<^verbatim>\<open>Date.prototype.toLocaleDateString\<close> belong to the
  platform, not to this repository.  The model follows the steps that the language
  standard fixes for them and takes what depends on locale data, time zone data and the
  implementation as the fields of a record:
  \<^item> \<open>parse_other\<close>: \<^verbatim>\<open>Date.parse\<close> outside the recognised UTC forms;
  \<^item> \<open>ResolveLocaleOptions\<close>: the first part of creating a formatter (canonicalising
    the locale, reading \<^verbatim>\<open>localeMatcher\<close>, \<^verbatim>\<open>calendar\<close>, \<^verbatim>\<open>numberingSystem\<close>,
    \<^verbatim>\<open>hour12\<close>, \<^verbatim>\<open>hourCycle\<close> and \<^verbatim>\<open>timeZone\<close>, resolving the locale), which fails or
    gives the resolved data \<open>'r\<close>;
  \<^item> \<open>CoerceOption\<close>: conversion and validation of one option value
    (\<open>None\<close> when the value is not allowed for that option);
  \<^item> \<open>FormatPattern\<close>: choosing the pattern for the requested fields and rendering a
    finite time value with it.
  Options are read through property access only, so these fields take the options as
  a function from keys to values.
\<close>

datatype error = RangeError | TypeError

datatype best_format =
    StyleFormat "string option" "string option"
  | ComponentFormat string "(string \<times> string option) list"

record ('v, 'r) platform =
  parse_other :: "string \<Rightarrow> time_value"
  ResolveLocaleOptions :: "string \<Rightarrow> (string \<Rightarrow> 'v option) \<Rightarrow> error + 'r"
  CoerceOption :: "string \<Rightarrow> 'v \<Rightarrow> string option"
  FormatPattern :: "'r \<Rightarrow> best_format \<Rightarrow> int \<Rightarrow> string"

definition Date_parse :: "('v, 'r) platform \<Rightarrow> string \<Rightarrow> time_value" where
  "Date_parse P s =
     (case parse_utc_date_time s of
        Some t \<Rightarrow> Some t
      | None \<Rightarrow> parse_other P s)"

text \<open>\<^verbatim>\<open>new Date(value)\<close> with one argument: the time value of the new object.\<close>

definition new_Date :: "('v, 'r) platform \<Rightarrow> date_input \<Rightarrow> time_value" where
  "new_Date P v =
     (case v of
        DateObject tv \<Rightarrow> TimeClip tv
      | DateString s \<Rightarrow> TimeClip (Date_parse P s)
      | DateNumber n \<Rightarrow> TimeClipNumber n)"

text \<open>
  \<^verbatim>\<open>GetOption\<close>: an \<^verbatim>\<open>undefined\<close> value gives the fallback \<^verbatim>\<open>undefined\<close>; any other
  value is converted and checked, and a value that is not allowed is a \<^verbatim>\<open>RangeError\<close>.
\<close>

definition GetOption ::
  "('v, 'r) platform \<Rightarrow> (string \<Rightarrow> 'v option) \<Rightarrow> string \<Rightarrow> error + string option" where
  "GetOption P opts prop =
     (case opts prop of
        None \<Rightarrow> Inr None
      | Some v \<Rightarrow>
          (case CoerceOption P prop v of
             None \<Rightarrow> Inl RangeError
           | Some s \<Rightarrow> Inr (Some s)))"

text \<open>The date-time component options, in the order in which a formatter reads them.\<close>

definition component_props :: "string list" where
  "component_props =
     [''weekday'', ''era'', ''year'', ''month'', ''day'', ''dayPeriod'', ''hour'', ''minute'',
      ''second'', ''fractionalSecondDigits'', ''timeZoneName'']"

definition date_props :: "string list" where
  "date_props = [''weekday'', ''year'', ''month'', ''day'']"

definition time_props :: "string list" where
  "time_props = [''dayPeriod'', ''hour'', ''minute'', ''second'', ''fractionalSecondDigits'']"

fun read_components ::
  "('v, 'r) platform \<Rightarrow> (string \<Rightarrow> 'v option) \<Rightarrow> string list
     \<Rightarrow> error + (string \<times> string option) list" where
  "read_components P opts [] = Inr []"
| "read_components P opts (prop # props) =
     (case GetOption P opts prop of
        Inl e \<Rightarrow> Inl e
      | Inr v \<Rightarrow>
          (case read_components P opts props of
             Inl e \<Rightarrow> Inl e
           | Inr rest \<Rightarrow> Inr ((prop, v) # rest)))"

definition is_defined :: "(string \<times> string option) list \<Rightarrow> string \<Rightarrow> bool" where
  "is_defined formatOptions prop =
     (case map_of formatOptions prop of Some (Some v) \<Rightarrow> True | _ \<Rightarrow> False)"

datatype required = ReqDate | ReqTime | ReqAny

datatype defaults = DefDate | DefTime | DefAll

definition needDefaults :: "required \<Rightarrow> (string \<times> string option) list \<Rightarrow> bool" where
  "needDefaults req formatOptions =
     (\<not> ((req = ReqDate \<or> req = ReqAny) \<and> list_ex (is_defined formatOptions) date_props)
      \<and> \<not> ((req = ReqTime \<or> req = ReqAny) \<and> list_ex (is_defined formatOptions) time_props))"

definition set_numeric ::
  "string list \<Rightarrow> (string \<times> string option) list \<Rightarrow> (string \<times> string option) list" where
  "set_numeric props formatOptions =
     map (\<lambda>(k, v). if k \<in> set props then (k, Some ''numeric'') else (k, v)) formatOptions"

text \<open>
  A formatter object: the resolved locale data, the chosen format, and the slot
  \<^verbatim>\<open>[[BoundFormat]]\<close> that the \<^verbatim>\<open>format\<close> accessor fills on its first use.
\<close>

record 'r DateTimeFormat =
  resolved :: 'r
  pattern :: best_format
  BoundFormat :: bool

text \<open>
  Creating a formatter.  \<open>required\<close> and \<open>defaults\<close> are \<open>ReqAny\<close>, \<open>DefDate\<close> for the
  constructor \<^verbatim>\<open>new Intl.DateTimeFormat(locales, options)\<close> and \<open>ReqDate\<close>, \<open>DefDate\<close> for
  \<^verbatim>\<open>toLocaleDateString\<close>.
\<close>

definition CreateDateTimeFormat ::
  "('v, 'r) platform \<Rightarrow> string \<Rightarrow> 'v jsobject \<Rightarrow> required \<Rightarrow> defaults
     \<Rightarrow> error + 'r DateTimeFormat" where
  "CreateDateTimeFormat P locales options req dflt =
     (case ResolveLocaleOptions P locales (Get options) of
        Inl e \<Rightarrow> Inl e
      | Inr r \<Rightarrow>
     (case read_components P (Get options) component_props of
        Inl e \<Rightarrow> Inl e
      | Inr formatOptions \<Rightarrow>
     (case GetOption P (Get options) ''formatMatcher'' of
        Inl e \<Rightarrow> Inl e
      | Inr formatMatcher \<Rightarrow>
     (case GetOption P (Get options) ''dateStyle'' of
        Inl e \<Rightarrow> Inl e
      | Inr dateStyle \<Rightarrow>
     (case GetOption P (Get options) ''timeStyle'' of
        Inl e \<Rightarrow> Inl e
      | Inr timeStyle \<Rightarrow>
          if dateStyle \<noteq> None \<or> timeStyle \<noteq> None then
            if list_ex (is_defined formatOptions) component_props then Inl TypeError
            else if req = ReqDate \<and> timeStyle \<noteq> None then Inl TypeError
            else if req = ReqTime \<and> dateStyle \<noteq> None then Inl TypeError
            else Inr \<lparr>resolved = r, pattern = StyleFormat dateStyle timeStyle,
                      BoundFormat = False\<rparr>
          else
            let nd = needDefaults req formatOptions;
                fo1 = (if nd \<and> (dflt = DefDate \<or> dflt = DefAll)
                       then set_numeric [''year'', ''month'', ''day''] formatOptions
                       else formatOptions);
                fo2 = (if nd \<and> (dflt = DefTime \<or> dflt = DefAll)
                       then set_numeric [''hour'', ''minute'', ''second''] fo1
                       else fo1)
            in Inr \<lparr>resolved = r,
                    pattern = ComponentFormat
                      (case formatMatcher of None \<Rightarrow> ''best fit'' | Some fm \<Rightarrow> fm) fo2,
                    BoundFormat = False\<rparr>)))))"

definition new_DateTimeFormat ::
  "('v, 'r) platform \<Rightarrow> string \<Rightarrow> 'v jsobject \<Rightarrow> error + 'r DateTimeFormat" where
  "new_DateTimeFormat P locales options = CreateDateTimeFormat P locales options ReqAny DefDate"

text \<open>\<^verbatim>\<open>FormatDateTime\<close>: an invalid time value is a \<^verbatim>\<open>RangeError\<close>.\<close>

definition FormatDateTime ::
  "('v, 'r) platform \<Rightarrow> 'r DateTimeFormat \<Rightarrow> time_value \<Rightarrow> error + string" where
  "FormatDateTime P dtf x =
     (case TimeClip x of
        None \<Rightarrow> Inl RangeError
      | Some t \<Rightarrow> Inr (FormatPattern P (resolved dtf) (pattern dtf) t))"

text \<open>
  The accessor \<^verbatim>\<open>dtf.format\<close> creates the bound function on first use and stores it
  in the formatter; calling that function with a date formats the date's time value.
\<close>

definition get_format :: "'r DateTimeFormat \<Rightarrow> 'r DateTimeFormat" where
  "get_format dtf = (if BoundFormat dtf then dtf else dtf\<lparr>BoundFormat := True\<rparr>)"

text \<open>
  \<^verbatim>\<open>date.toLocaleDateString(locales, options)\<close>: an invalid date gives the string
  \<^verbatim>\<open>"Invalid Date"\<close> before any formatter is created.
\<close>

definition toLocaleDateString ::
  "('v, 'r) platform \<Rightarrow> time_value \<Rightarrow> string \<Rightarrow> 'v jsobject \<Rightarrow> error + string" where
  "toLocaleDateString P x locales options =
     (case x of
        None \<Rightarrow> Inr ''Invalid Date''
      | Some t \<Rightarrow>
          (case CreateDateTimeFormat P locales options ReqDate DefDate of
             Inl e \<Rightarrow> Inl e
           | Inr dateFormat \<Rightarrow> FormatDateTime P dateFormat (Some t)))"

section \<open>The module src/utils/date.ts\<close>

text \<open>
  \<^verbatim>\<open>
  import { siteConfig } from "@/site-config";

  const dateFormat = new Intl.DateTimeFormat(siteConfig.date.locale, siteConfig.date.options);

  export function getFormattedDate(
      date: string | number | Date,
      options?: Intl.DateTimeFormatOptions
  ) {
      if (typeof options !== "undefined") {
          return new Date(date).toLocaleDateString(siteConfig.date.locale, {
              ...(siteConfig.date.options as Intl.DateTimeFormatOptions),
              ...options,
          });
      }

      return dateFormat.format(new Date(date));
  }
  \<close>
  The module \<^verbatim>\<open>@/site-config\<close> is not part of the sources at hand; the configuration
  is a parameter.  \<open>date_locale\<close> is \<^verbatim>\<open>siteConfig.date.locale\<close> and \<open>date_options\<close> is
  \<^verbatim>\<open>siteConfig.date.options\<close>.
\<close>

record 'v site_config =
  date_locale :: string
  date_options :: "'v jsobject"

text \<open>
  The state of the module: the imported configuration and the constant
  \<^verbatim>\<open>dateFormat\<close>.  Loading the module evaluates the constructor call; if that throws,
  the module does not load.
\<close>

record ('v, 'r) date_module =
  siteConfig :: "'v site_config"
  dateFormat :: "'r DateTimeFormat"

definition load_date_module ::
  "('v, 'r) platform \<Rightarrow> 'v site_config \<Rightarrow> error + ('v, 'r) date_module" where
  "load_date_module P cfg =
     (case new_DateTimeFormat P (date_locale cfg) (date_options cfg) of
        Inl e \<Rightarrow> Inl e
      | Inr f \<Rightarrow> Inr \<lparr>siteConfig = cfg, dateFormat = f\<rparr>)"

text \<open>
  A call returns the string or the error thrown, together with the state of the module
  after the call.  The argument \<open>options\<close> is \<open>None\<close> when it is omitted
  (\<^verbatim>\<open>typeof options === "undefined"\<close>).
\<close>

definition getFormattedDate ::
  "('v, 'r) platform \<Rightarrow> ('v, 'r) date_module \<Rightarrow> date_input \<Rightarrow> 'v jsobject option
     \<Rightarrow> (error + string) \<times> ('v, 'r) date_module" where
  "getFormattedDate P m date options =
     (case options of
        Some opts \<Rightarrow>
          (toLocaleDateString P (new_Date P date) (date_locale (siteConfig m))
             (spread (date_options (siteConfig m)) opts),
           m)
      | None \<Rightarrow>
          (let f = get_format (dateFormat m)
           in (FormatDateTime P f (new_Date P date), m\<lparr>dateFormat := f\<rparr>)))"

text \<open>A sequence of calls, each on the state that the previous one left.\<close>

fun run_calls ::
  "('v, 'r) platform \<Rightarrow> ('v, 'r) date_module \<Rightarrow> (date_input \<times> 'v jsobject option) list
     \<Rightarrow> ('v, 'r) date_module" where
  "run_calls P m [] = m"
| "run_calls P m ((date, options) # calls) =
     run_calls P (snd (getFormattedDate P m date options)) calls"

section \<open>The specification's reference notions\<close>

text \<open>
  The specification speaks of the shallow merge of two option maps, in which the
  override wins key by key, and of formatting a date directly, in one shot, with the
  configured locale and options: the call that takes locale and options itself, which
  in this module is \<^verbatim>\<open>new Date(date).toLocaleDateString(locale, options)\<close>.  These two
  definitions follow its wording; the theorems compare the module with them.
\<close>

definition shallow_merge :: "(string \<rightharpoonup> 'a) \<Rightarrow> (string \<rightharpoonup> 'a) \<Rightarrow> (string \<rightharpoonup> 'a)" where
  "shallow_merge base override =
     (\<lambda>k. case override k of Some v \<Rightarrow> Some v | None \<Rightarrow> base k)"

definition direct_format ::
  "('v, 'r) platform \<Rightarrow> 'v site_config \<Rightarrow> date_input \<Rightarrow> error + string" where
  "direct_format P cfg date =
     toLocaleDateString P (new_Date P date) (date_locale cfg) (date_options cfg)"

section \<open>A concrete platform and configuration\<close>

text \<open>
  To run the model, a small platform: the locale \<^verbatim>\<open>en-US\<close> only, the usual option
  values, UTC as time zone, and a rendering of year, month and day with the month in the
  requested style.
\<close>

definition month_names :: "string list" where
  "month_names =
     [''January'', ''February'', ''March'', ''April'', ''May'', ''June'', ''July'', ''August'',
      ''September'', ''October'', ''November'', ''December'']"

fun show_nat :: "nat \<Rightarrow> string" where
  "show_nat n =
     (if n < 10 then [char_of (48 + n)]
      else show_nat (n div 10) @ [char_of (48 + n mod 10)])"

declare show_nat.simps [simp del]

definition sample_render :: "string \<Rightarrow> best_format \<Rightarrow> int \<Rightarrow> string" where
  "sample_render r fmt t =
     (let d = t div msPerDay;
          y = show_nat (nat (YearFromDay d));
          m = MonthFromDay d;
          dt = show_nat (nat (DateFromDay d));
          style = (case fmt of
                     StyleFormat ds ts \<Rightarrow> ''numeric''
                   | ComponentFormat fm fo \<Rightarrow>
                       (case map_of fo ''month'' of Some (Some s) \<Rightarrow> s | _ \<Rightarrow> ''numeric''))
      in if style = ''long'' then month_names ! nat m @ '' '' @ dt @ '', '' @ y
         else if style = ''short'' then take 3 (month_names ! nat m) @ '' '' @ dt @ '', '' @ y
         else show_nat (nat (m + 1)) @ ''/'' @ dt @ ''/'' @ y)"

definition sample_platform :: "(string, string) platform" where
  "sample_platform =
     \<lparr>parse_other = (\<lambda>s. None),
      ResolveLocaleOptions =
        (\<lambda>locales opts. if locales = ''en-US'' then Inr locales else Inl RangeError),
      CoerceOption =
        (\<lambda>prop v. if v \<in> set [''numeric'', ''2-digit'', ''long'', ''short'', ''narrow'']
                   then Some v else None),
      FormatPattern = sample_render\<rparr>"

text \<open>
  Modelled from the spec: the module \<^verbatim>\<open>@/site-config\<close> is not among the sources.  The
  specification's scenarios assume the locale \<^verbatim>\<open>en-US\<close> and the default options
  \<^verbatim>\<open>{year: "numeric", month: "long", day: "numeric"}\<close>.
\<close>

definition sample_config :: "string site_config" where
  "sample_config =
     \<lparr>date_locale = ''en-US'',
      date_options =
        [(''year'', Some ''numeric''), (''month'', Some ''long''), (''day'', Some ''numeric'')]\<rparr>"

text \<open>The formatter that loading the module with this configuration creates.\<close>

definition sample_format :: "string DateTimeFormat" where
  "sample_format =
     \<lparr>resolved = ''en-US'',
      pattern = ComponentFormat ''best fit''
        [(''weekday'', None), (''era'', None), (''year'', Some ''numeric''),
         (''month'', Some ''long''), (''day'', Some ''numeric''), (''dayPeriod'', None),
         (''hour'', None), (''minute'', None), (''second'', None),
         (''fractionalSecondDigits'', None), (''timeZoneName'', None)],
      BoundFormat = False\<rparr>"

definition sample_module :: "(string, string) date_module" where
  "sample_module = \<lparr>siteConfig = sample_config, dateFormat = sample_format\<rparr>"

section \<open>Properties of the calendar arithmetic\<close>

text \<open>
  \<open>YearFromDay d\<close> is the year of the day number \<open>d\<close> as the language specifies it:
  the one \<open>y\<close> with \<open>DayFromYear y \<le> d < DayFromYear (y + 1)\<close>.
\<close>

lemma int_div_bounds:
  fixes a n :: int
  assumes "0 < n"
  shows "n * (a div n) \<le> a" and "a < n * (a div n) + n"
proof -
  have "a = n * (a div n) + a mod n" by simp
  moreover have "0 \<le> a mod n" "a mod n < n" using assms by simp_all
  ultimately show "n * (a div n) \<le> a" and "a < n * (a div n) + n" by linarith+
qed

lemma DayFromYear_bounds:
  "146097 * (y - 1970) - 506 \<le> 400 * DayFromYear y"
  "400 * DayFromYear y \<le> 146097 * (y - 1970) + 589"
proof -
  define q4 where "q4 = (y - 1969) div 4"
  define q100 where "q100 = (y - 1901) div 100"
  define q400 where "q400 = (y - 1601) div 400"
  have d: "DayFromYear y = 365 * (y - 1970) + q4 - q100 + q400"
    by (simp add: DayFromYear_def q4_def q100_def q400_def)
  have b4: "4 * q4 \<le> y - 1969" "y - 1969 < 4 * q4 + 4"
    unfolding q4_def by (rule int_div_bounds; simp)+
  have b100: "100 * q100 \<le> y - 1901" "y - 1901 < 100 * q100 + 100"
    unfolding q100_def by (rule int_div_bounds; simp)+
  have b400: "400 * q400 \<le> y - 1601" "y - 1601 < 400 * q400 + 400"
    unfolding q400_def by (rule int_div_bounds; simp)+
  have l4: "100 * y - 197200 \<le> 400 * q4" using b4(2) by linarith
  have u4: "400 * q4 \<le> 100 * y - 196900" using b4(1) by linarith
  have l100: "4 * y - 8000 \<le> 400 * q100" using b100(2) by linarith
  have u100: "400 * q100 \<le> 4 * y - 7604" using b100(1) by linarith
  have l400: "y - 2000 \<le> 400 * q400" using b400(2) by linarith
  have u400: "400 * q400 \<le> y - 1601" using b400(1) by linarith
  show "146097 * (y - 1970) - 506 \<le> 400 * DayFromYear y"
    unfolding d using l4 u100 l400 by (simp add: algebra_simps)
  show "400 * DayFromYear y \<le> 146097 * (y - 1970) + 589"
    unfolding d using u4 l100 u400 by (simp add: algebra_simps)
qed

lemma YearFromDay_bracket:
  "DayFromYear (YearFromDay d) \<le> d \<and> d < DayFromYear (YearFromDay d + 1)"
proof -
  define y where "y = 1970 + (400 * d) div 146097"
  have e: "146097 * (y - 1970) \<le> 400 * d" "400 * d < 146097 * (y - 1970) + 146097"
    using int_div_bounds [of 146097 "400 * d"] by (simp_all add: y_def)
  have "400 * d < 400 * DayFromYear (y + 2)"
    using DayFromYear_bounds(1) [of "y + 2"] e by (simp add: algebra_simps)
  then have up: "d < DayFromYear (y + 2)" by simp
  have "400 * DayFromYear (y - 1) \<le> 400 * d"
    using DayFromYear_bounds(2) [of "y - 1"] e by (simp add: algebra_simps)
  then have low: "DayFromYear (y - 1) \<le> d" by simp
  have r: "YearFromDay d =
             (if DayFromYear (y + 1) \<le> d then y + 1
              else if DayFromYear y \<le> d then y else y - 1)"
    by (simp add: YearFromDay_def y_def Let_def)
  have s2: "y + 1 + 1 = y + 2" and s0: "y - 1 + 1 = y" by simp_all
  show ?thesis
    unfolding r using up low by (simp add: s2 s0)
qed



lemma DayFromYear_step: "DayFromYear y < DayFromYear (y + 1)"
proof -
  have a: "(y - 1969) div 4 \<le> (y + 1 - 1969) div 4"
    by (intro zdiv_mono1) simp_all
  have b: "(y + 1 - 1901) div 100 \<le> (y - 1901) div 100 + 1"
  proof -
    have "(y + 1 - 1901) div 100 \<le> (y - 1901 + 100) div 100"
      by (intro zdiv_mono1) simp_all
    then show ?thesis by simp
  qed
  have c: "(y - 1601) div 400 \<le> (y + 1 - 1601) div 400"
    by (intro zdiv_mono1) simp_all
  show ?thesis
    using a b c by (simp add: DayFromYear_def algebra_simps)
qed

lemma DayFromYear_mono: "y \<le> z \<Longrightarrow> DayFromYear y \<le> DayFromYear z"
proof (induction z rule: int_ge_induct)
  case base
  show ?case by simp
next
  case (step i)
  then show ?case using DayFromYear_step [of i] by linarith
qed

lemma YearFromDay_unique:
  assumes "DayFromYear y \<le> d" and "d < DayFromYear (y + 1)"
  shows "YearFromDay d = y"
proof (rule ccontr)
  assume ne: "YearFromDay d \<noteq> y"
  note br = YearFromDay_bracket [of d]
  show False
  proof (cases "YearFromDay d < y")
    case True
    then have "DayFromYear (YearFromDay d + 1) \<le> DayFromYear y"
      by (intro DayFromYear_mono) simp
    with br assms show False by linarith
  next
    case False
    with ne have "DayFromYear (y + 1) \<le> DayFromYear (YearFromDay d)"
      by (intro DayFromYear_mono) simp
    with br assms show False by linarith
  qed
qed

section \<open>Properties of getAge\<close>

lemmas calendar_defs = MakeDate_def MakeDay_def MakeTime_def MakeFullYear_def
  DayFromYear_def DaysBeforeMonth_def InLeapYear_def DaysInYear_def msPerDay_def

lemma birthday_local_value: "birthday_local = 1064793600000"
  by (simp add: birthday_local_def calendar_defs)

lemma birthday_calendar_fields:
  "DayFromYear 2003 \<le> MakeDay 2003 8 29 \<and> MakeDay 2003 8 29 < DayFromYear (2003 + 1)
   \<and> YearFromDay (MakeDay 2003 8 29) = 2003
   \<and> MonthFromDay (MakeDay 2003 8 29) = 8
   \<and> DateFromDay (MakeDay 2003 8 29) = 29"
  by (simp add: calendar_defs YearFromDay_def MonthFromDay_def DateFromDay_def DayWithinYear_def)

lemma birthday_eq:
  assumes "\<bar>localTZA h birthday_local\<bar> \<le> msPerDay"
  shows "birthday h = Some (birthday_local - localTZA h birthday_local)"
  using assms
  by (simp add: birthday_def Date_ymd_def TimeClip_def UTC_def maxTime_def birthday_local_def
      Let_def calendar_defs)

lemma birthday_now [simp]: "birthday (h\<lparr>now := t\<rparr>) = birthday h"
  by (simp add: birthday_def Date_ymd_def UTC_def)

lemma getAge_div:
  assumes "\<bar>localTZA h birthday_local\<bar> \<le> msPerDay"
  shows "getAge h = Some ((now h - (birthday_local - localTZA h birthday_local)) div 31556952000)"
  by (simp add: getAge_def birthday_eq [OF assms])

lemma floor_year: "\<lfloor>real_of_int a / 31556952000\<rfloor> = a div 31556952000"
  using floor_divide_of_int_eq [of a 31556952000, where ?'a = real] by simp

text \<open>
  The division in \<^verbatim>\<open>getAge\<close> is a division of doubles, rounded to the nearest double,
  and \<^verbatim>\<open>Math.floor\<close> is taken of the rounded quotient.  Let \<open>D\<close> be the set of doubles
  and \<open>r\<close> the double nearest to the exact quotient.  A quotient that is an integer is a
  double itself, and a quotient of a time value difference is below \<open>2^19\<close> in magnitude,
  where doubles are at most \<open>2^-34\<close> apart, so some double is within \<open>2^-35\<close> of it.
  These two facts make the floor of the rounded quotient the integer floor division,
  which is the \<open>div\<close> in the definition of \<open>getAge\<close>.
\<close>

lemma floor_rounded_quotient:
  fixes D :: "real set" and a :: int and r :: real
  assumes ints: "\<And>n :: int. real_of_int n = real_of_int a / 31556952000 \<Longrightarrow> real_of_int n \<in> D"
    and dense: "\<exists>d\<in>D. \<bar>d - real_of_int a / 31556952000\<bar> \<le> 1 / 2 ^ 35"
    and nearest: "\<And>d. d \<in> D \<Longrightarrow>
                    \<bar>r - real_of_int a / 31556952000\<bar> \<le> \<bar>d - real_of_int a / 31556952000\<bar>"
  shows "\<lfloor>r\<rfloor> = a div 31556952000"
proof -
  let ?P = "31556952000 :: int"
  let ?x = "real_of_int a / 31556952000"
  define n where "n = a div ?P"
  define m where "m = a mod ?P"
  have a: "a = n * ?P + m" by (simp add: n_def m_def)
  have m: "0 \<le> m" "m < ?P" by (simp_all add: m_def)
  have x: "?x = real_of_int n + real_of_int m / 31556952000"
    by (simp add: a add_divide_distrib)
  show ?thesis
  proof (cases "m = 0")
    case True
    then have nx: "real_of_int n = ?x" by (simp add: x)
    then have "\<bar>r - ?x\<bar> \<le> \<bar>real_of_int n - ?x\<bar>" by (intro nearest ints)
    then have "r = real_of_int n" using nx by simp
    then show ?thesis by (simp add: n_def)
  next
    case False
    with m have m1: "1 \<le> m" "m \<le> ?P - 1" by simp_all
    from dense nearest have close: "\<bar>r - ?x\<bar> \<le> 1 / 2 ^ 35"
      by (meson order_trans)
    have lo: "real_of_int n + 1 / 31556952000 \<le> ?x"
      using m1(1) by (simp add: x divide_le_cancel)
    have "real_of_int m \<le> 31556952000 - 1" using m1(2) by linarith
    then have "real_of_int m / 31556952000 \<le> 1 - 1 / 31556952000"
      by (simp add: field_simps)
    then have hi: "?x \<le> real_of_int n + 1 - 1 / 31556952000"
      by (simp add: x)
    have small: "(1 :: real) / 2 ^ 35 < 1 / 31556952000" by simp
    have "real_of_int n \<le> r" "r < real_of_int n + 1"
      using close lo hi small by linarith+
    then have "\<lfloor>r\<rfloor> = n" by linarith
    then show ?thesis by (simp add: n_def)
  qed
qed

text \<open>
  C3.  On a host whose zone offset at the birthday is at most a day (every real zone),
  \<^verbatim>\<open>getAge()\<close> is the floor of the current time minus the time value of the birthday,
  divided by \<open>31556952000\<close>.  The birthday is local midnight of the day
  \<open>MakeDay 2003 8 29\<close>, whose calendar fields are year 2003, month 8 (September, months
  counting from 0) and date 29; and \<open>31556952000\<close> milliseconds are \<open>365.2425\<close> days
  of \<open>86400000\<close> milliseconds.
\<close>

theorem getAge_floor_formula:
  assumes "\<bar>localTZA h birthday_local\<bar> \<le> msPerDay"
  shows "getAge h =
           Some \<lfloor>real_of_int (now h - (birthday_local - localTZA h birthday_local)) / 31556952000\<rfloor>
       \<and> birthday_local = MakeDay 2003 8 29 * msPerDay
       \<and> DayFromYear 2003 \<le> MakeDay 2003 8 29 \<and> MakeDay 2003 8 29 < DayFromYear (2003 + 1)
       \<and> YearFromDay (MakeDay 2003 8 29) = 2003
       \<and> MonthFromDay (MakeDay 2003 8 29) = 8
       \<and> DateFromDay (MakeDay 2003 8 29) = 29
       \<and> (31556952000 :: real) = 365.2425 * 86400000"
proof (intro conjI)
  show "getAge h =
          Some \<lfloor>real_of_int (now h - (birthday_local - localTZA h birthday_local)) / 31556952000\<rfloor>"
    unfolding floor_year by (rule getAge_div [OF assms])
  show "birthday_local = MakeDay 2003 8 29 * msPerDay"
    by (simp add: birthday_local_def MakeDate_def MakeTime_def MakeFullYear_def)
  show "(31556952000 :: real) = 365.2425 * 86400000" by simp
qed (simp_all only: birthday_calendar_fields)

theorem getAge_floor_formula_witness:
  "\<bar>localTZA \<lparr>now = 1762041600000, localTZA = \<lambda>_. 3600000\<rparr> birthday_local\<bar> \<le> msPerDay
   \<and> getAge \<lparr>now = 1762041600000, localTZA = \<lambda>_. 3600000\<rparr> = Some 22"
proof -
  let ?h = "\<lparr>now = 1762041600000, localTZA = \<lambda>_. 3600000\<rparr>"
  have h: "\<bar>localTZA ?h birthday_local\<bar> \<le> msPerDay" by (simp add: msPerDay_def)
  have "getAge ?h =
          Some \<lfloor>real_of_int (now ?h - (birthday_local - localTZA ?h birthday_local)) / 31556952000\<rfloor>"
    using getAge_floor_formula [OF h] by (rule conjunct1)
  then have "getAge ?h = Some 22"
    unfolding floor_year by (simp add: birthday_local_value)
  with h show ?thesis by (rule_tac conjI)
qed

lemma local_2025_09_29: "MakeDate (MakeDay 2025 8 29) (MakeTime 0 0 0 0) = 1759104000000"
  by (simp add: calendar_defs)

lemma local_2025_09_28: "MakeDate (MakeDay 2025 8 28) (MakeTime 0 0 0 0) = 1759017600000"
  by (simp add: calendar_defs)

text \<open>
  C4, as stated, fails in two ways.  On a host whose zone was 11 hours behind UTC in
  2003 and is 13 hours ahead of it since the end of 2011 (the zone of Apia), the
  birthday lies a whole day later on the time line than the local dates suggest, and at
  local midnight of 2025-09-29 \<^verbatim>\<open>getAge()\<close> is still 21.  And on a host in UTC the value
  is already 22 on 2025-09-28 at 08:02:24, so it is not 21 whenever the current time is
  on 2025-09-28.
\<close>

theorem getAge_2025_09_29_counterexample:
  "local_midnight
     \<lparr>now = 0, localTZA = \<lambda>t. if t < 1325203200000 then - 39600000 else 46800000\<rparr> 2025 8 29
     = 1759057200000
   \<and> getAge \<lparr>now = 1759057200000,
              localTZA = \<lambda>t. if t < 1325203200000 then - 39600000 else 46800000\<rparr> = Some 21
   \<and> UTC \<lparr>now = 0, localTZA = \<lambda>t. 0\<rparr> (MakeDate (MakeDay 2025 8 28) (MakeTime 8 2 24 0))
       = 1759046544000
   \<and> getAge \<lparr>now = 1759046544000, localTZA = \<lambda>t. 0\<rparr> = Some 22"
proof (intro conjI)
  let ?apia = "\<lambda>t :: int. if t < 1325203200000 then - 39600000 else (46800000 :: int)"
  show "local_midnight \<lparr>now = 0, localTZA = ?apia\<rparr> 2025 8 29 = 1759057200000"
    by (simp add: local_midnight_def UTC_def local_2025_09_29)
  have "birthday \<lparr>now = 1759057200000, localTZA = ?apia\<rparr> = Some 1064833200000"
    using birthday_eq [of "\<lparr>now = 1759057200000, localTZA = ?apia\<rparr>"]
    by (simp add: birthday_local_value msPerDay_def)
  then show "getAge \<lparr>now = 1759057200000, localTZA = ?apia\<rparr> = Some 21"
    by (simp add: getAge_def)
  show "UTC \<lparr>now = 0, localTZA = \<lambda>t. 0\<rparr> (MakeDate (MakeDay 2025 8 28) (MakeTime 8 2 24 0))
          = 1759046544000"
    by (simp add: UTC_def calendar_defs)
  have "birthday \<lparr>now = 1759046544000, localTZA = \<lambda>t. 0\<rparr> = Some 1064793600000"
    using birthday_eq [of "\<lparr>now = 1759046544000, localTZA = \<lambda>t. 0\<rparr>"]
    by (simp add: birthday_local_value msPerDay_def)
  then show "getAge \<lparr>now = 1759046544000, localTZA = \<lambda>t. 0\<rparr> = Some 22"
    by (simp add: getAge_def)
qed

text \<open>
  C4, amended.  The birthday is local midnight of 2003-09-29.  On a host whose zone
  offsets at local midnight of 2025-09-29 and of 2025-09-28 differ from the offset at
  the birthday by at most eight hours (daylight saving, an ordinary change of zone
  rules), \<^verbatim>\<open>getAge()\<close> is 22 with the current time at local midnight of 2025-09-29 and
  21 with the current time one day earlier, at local midnight of 2025-09-28.
\<close>

theorem getAge_2025_09_29:
  assumes sane: "\<bar>localTZA h birthday_local\<bar> \<le> msPerDay"
    and z29: "\<bar>localTZA h birthday_local
               - localTZA h (MakeDate (MakeDay 2025 8 29) (MakeTime 0 0 0 0))\<bar> \<le> 8 * 3600000"
    and z28: "\<bar>localTZA h birthday_local
               - localTZA h (MakeDate (MakeDay 2025 8 28) (MakeTime 0 0 0 0))\<bar> \<le> 8 * 3600000"
  shows "getAge (h\<lparr>now := local_midnight h 2025 8 29\<rparr>) = Some 22
       \<and> getAge (h\<lparr>now := local_midnight h 2025 8 28\<rparr>) = Some 21"
proof -
  let ?a = "localTZA h birthday_local"
  let ?h29 = "h\<lparr>now := local_midnight h 2025 8 29\<rparr>"
  let ?h28 = "h\<lparr>now := local_midnight h 2025 8 28\<rparr>"
  have s29: "\<bar>localTZA ?h29 birthday_local\<bar> \<le> msPerDay" using sane by simp
  have s28: "\<bar>localTZA ?h28 birthday_local\<bar> \<le> msPerDay" using sane by simp
  have n29: "local_midnight h 2025 8 29 = 1759104000000 - localTZA h 1759104000000"
    by (simp add: local_midnight_def UTC_def local_2025_09_29)
  have n28: "local_midnight h 2025 8 28 = 1759017600000 - localTZA h 1759017600000"
    by (simp add: local_midnight_def UTC_def local_2025_09_28)
  have d29: "\<bar>?a - localTZA h 1759104000000\<bar> \<le> 28800000"
    using z29 by (simp add: local_2025_09_29)
  have d28: "\<bar>?a - localTZA h 1759017600000\<bar> \<le> 28800000"
    using z28 by (simp add: local_2025_09_28)
  have "getAge ?h29 =
          Some ((1759104000000 - localTZA h 1759104000000 - (1064793600000 - ?a)) div 31556952000)"
    using getAge_div [OF s29] by (simp add: n29 birthday_local_value)
  moreover have
    "(1759104000000 - localTZA h 1759104000000 - (1064793600000 - ?a)) div 31556952000 = 22"
    using d29 by simp
  moreover have "getAge ?h28 =
          Some ((1759017600000 - localTZA h 1759017600000 - (1064793600000 - ?a)) div 31556952000)"
    using getAge_div [OF s28] by (simp add: n28 birthday_local_value)
  moreover have
    "(1759017600000 - localTZA h 1759017600000 - (1064793600000 - ?a)) div 31556952000 = 21"
    using d28 by simp
  ultimately show ?thesis by simp
qed

theorem getAge_2025_09_29_witness:
  "\<bar>localTZA \<lparr>now = 0, localTZA = \<lambda>_. 7200000\<rparr> birthday_local\<bar> \<le> msPerDay
   \<and> \<bar>localTZA \<lparr>now = 0, localTZA = \<lambda>_. 7200000\<rparr> birthday_local
        - localTZA \<lparr>now = 0, localTZA = \<lambda>_. 7200000\<rparr>
            (MakeDate (MakeDay 2025 8 29) (MakeTime 0 0 0 0))\<bar> \<le> 8 * 3600000
   \<and> \<bar>localTZA \<lparr>now = 0, localTZA = \<lambda>_. 7200000\<rparr> birthday_local
        - localTZA \<lparr>now = 0, localTZA = \<lambda>_. 7200000\<rparr>
            (MakeDate (MakeDay 2025 8 28) (MakeTime 0 0 0 0))\<bar> \<le> 8 * 3600000
   \<and> getAge \<lparr>now = 1759096800000, localTZA = \<lambda>_. 7200000\<rparr> = Some 22
   \<and> getAge \<lparr>now = 1759010400000, localTZA = \<lambda>_. 7200000\<rparr> = Some 21"
  using getAge_2025_09_29 [of "\<lparr>now = 0, localTZA = \<lambda>_. 7200000\<rparr>"]
  by (simp add: msPerDay_def local_midnight_def UTC_def local_2025_09_29 local_2025_09_28)

text \<open>
  The age does not stay 21 for the whole of 2025-09-28: twenty-two average years after
  the birthday end at 08:02:24 local time of that day.
\<close>

lemma getAge_2025_09_28_later:
  assumes "localTZA h = (\<lambda>_. z)" and "\<bar>z\<bar> \<le> msPerDay"
  shows "getAge (h\<lparr>now := UTC h (MakeDate (MakeDay 2025 8 28) (MakeTime 8 2 23 999))\<rparr>) = Some 21
       \<and> getAge (h\<lparr>now := UTC h (MakeDate (MakeDay 2025 8 28) (MakeTime 8 2 24 0))\<rparr>) = Some 22"
proof -
  have b: "birthday h = Some (1064793600000 - z)"
    using birthday_eq [of h] assms by (simp add: birthday_local_value)
  show ?thesis
    by (simp add: getAge_def b UTC_def assms(1) calendar_defs)
qed

text \<open>
  C5.  With the birthday fixed at the time value \<open>b\<close>, \<^verbatim>\<open>getAge()\<close> sampled at two
  instants \<open>t1 < t2\<close> does not decrease, and it increases exactly when some integer
  multiple of \<open>31556952000\<close> milliseconds counted from the birthday lies in \<open>(t1, t2]\<close>.
\<close>

theorem getAge_monotone:
  assumes b: "birthday h = Some b" and lt: "t1 < t2"
  shows "\<exists>a1 a2. getAge (h\<lparr>now := t1\<rparr>) = Some a1 \<and> getAge (h\<lparr>now := t2\<rparr>) = Some a2
           \<and> a1 \<le> a2
           \<and> (a1 < a2 \<longleftrightarrow> (\<exists>k. t1 < b + k * 31556952000 \<and> b + k * 31556952000 \<le> t2))"
proof -
  let ?P = "31556952000 :: int"
  let ?a1 = "(t1 - b) div ?P" and ?a2 = "(t2 - b) div ?P"
  have g1: "getAge (h\<lparr>now := t1\<rparr>) = Some ?a1" by (simp add: getAge_def b)
  have g2: "getAge (h\<lparr>now := t2\<rparr>) = Some ?a2" by (simp add: getAge_def b)
  have mono: "?a1 \<le> ?a2" using lt by (intro zdiv_mono1) simp_all
  have iff: "?a1 < ?a2 \<longleftrightarrow> (\<exists>k. t1 < b + k * ?P \<and> b + k * ?P \<le> t2)"
  proof
    assume less: "?a1 < ?a2"
    have "t1 - b < (?a1 + 1) * ?P"
      using div_mult_mod_eq [of "t1 - b" ?P] pos_mod_bound [of ?P "t1 - b"]
      by (simp add: algebra_simps)
    also have "\<dots> \<le> ?a2 * ?P" using less by simp
    finally have "t1 < b + ?a2 * ?P" by simp
    moreover have "?a2 * ?P \<le> t2 - b"
      using div_mult_mod_eq [of "t2 - b" ?P] pos_mod_sign [of ?P "t2 - b"]
      by (simp add: algebra_simps)
    then have "b + ?a2 * ?P \<le> t2" by simp
    ultimately show "\<exists>k. t1 < b + k * ?P \<and> b + k * ?P \<le> t2" by blast
  next
    assume "\<exists>k. t1 < b + k * ?P \<and> b + k * ?P \<le> t2"
    then obtain k where k1: "t1 < b + k * ?P" and k2: "b + k * ?P \<le> t2" by blast
    from k2 have "k * ?P \<le> t2 - b" by simp
    then have "(k * ?P) div ?P \<le> ?a2" by (intro zdiv_mono1) simp_all
    then have "k \<le> ?a2" by simp
    moreover from k1 have "t1 - b < k * ?P" by simp
    then have "?a1 < k" by (simp add: div_less_iff_less_mult)
    ultimately show "?a1 < ?a2" by simp
  qed
  show ?thesis using g1 g2 mono iff by blast
qed

theorem getAge_monotone_witness:
  "birthday \<lparr>now = 0, localTZA = \<lambda>_. 0\<rparr> = Some 1064793600000
   \<and> (1759017600000 :: int) < 1759104000000
   \<and> (\<exists>a1 a2. getAge \<lparr>now = 1759017600000, localTZA = \<lambda>_. 0\<rparr> = Some a1
         \<and> getAge \<lparr>now = 1759104000000, localTZA = \<lambda>_. 0\<rparr> = Some a2
         \<and> a1 \<le> a2
         \<and> (a1 < a2 \<longleftrightarrow> (\<exists>k. 1759017600000 < 1064793600000 + k * 31556952000
                               \<and> 1064793600000 + k * 31556952000 \<le> (1759104000000 :: int))))"
proof -
  let ?h = "\<lparr>now = 0, localTZA = \<lambda>_. 0\<rparr>"
  have b: "birthday ?h = Some 1064793600000"
    using birthday_eq [of ?h] by (simp add: msPerDay_def birthday_local_value)
  have lt: "(1759017600000 :: int) < 1759104000000" by simp
  show ?thesis using b lt getAge_monotone [OF b lt] by simp
qed

text \<open>
  C6.  With the birthday at the time value \<open>b\<close>: when the current time is at or after
  \<open>b\<close>, \<^verbatim>\<open>getAge()\<close> returns a non-negative integer; when it is before \<open>b\<close>, it returns a
  negative integer.  Neither case is an error.
\<close>

theorem getAge_sign:
  assumes b: "birthday h = Some b"
  shows "(b \<le> now h \<longrightarrow> (\<exists>a. getAge h = Some a \<and> 0 \<le> a))
       \<and> (now h < b \<longrightarrow> (\<exists>a. getAge h = Some a \<and> a < 0))"
  by (simp add: getAge_def b pos_imp_zdiv_nonneg_iff div_neg_pos_less0)

theorem getAge_sign_witness:
  "birthday \<lparr>now = 1064793600000, localTZA = \<lambda>_. 0\<rparr> = Some 1064793600000
   \<and> (1064793600000 :: int) \<le> now \<lparr>now = 1064793600000, localTZA = \<lambda>_. 0\<rparr>
   \<and> getAge \<lparr>now = 1064793600000, localTZA = \<lambda>_. 0\<rparr> = Some 0
   \<and> birthday \<lparr>now = 1064793599999, localTZA = \<lambda>_. 0\<rparr> = Some 1064793600000
   \<and> now \<lparr>now = 1064793599999, localTZA = \<lambda>_. 0\<rparr> < (1064793600000 :: int)
   \<and> getAge \<lparr>now = 1064793599999, localTZA = \<lambda>_. 0\<rparr> = Some (- 1)"
proof -
  let ?h0 = "\<lparr>now = 1064793600000, localTZA = \<lambda>_. 0\<rparr>"
  let ?h1 = "\<lparr>now = 1064793599999, localTZA = \<lambda>_. 0\<rparr>"
  have b0: "birthday ?h0 = Some 1064793600000"
    using birthday_eq [of ?h0] by (simp add: msPerDay_def birthday_local_value)
  have b1: "birthday ?h1 = Some 1064793600000"
    using birthday_eq [of ?h1] by (simp add: msPerDay_def birthday_local_value)
  have "getAge ?h0 = Some 0" "getAge ?h1 = Some (- 1)"
    by (simp_all add: getAge_def b0 b1)
  then show ?thesis using b0 b1 getAge_sign [OF b0] getAge_sign [OF b1] by simp
qed

section \<open>Properties of object spread\<close>

lemma map_of_CreateDataProperty:
  "map_of (CreateDataProperty obj k v) = (map_of obj)(k \<mapsto> v)"
  by (induction obj) (auto simp: fun_eq_iff)

lemma map_of_CopyDataProperties:
  "distinct (map fst source) \<Longrightarrow>
     map_of (CopyDataProperties target source) = map_of target ++ map_of source"
proof (induction source arbitrary: target)
  case Nil
  then show ?case by (simp add: CopyDataProperties_def)
next
  case (Cons p source)
  obtain k v where p: "p = (k, v)" by (cases p)
  from Cons.prems p have k: "k \<notin> fst ` set source" and d: "distinct (map fst source)"
    by auto
  have "map_of (CopyDataProperties target (p # source))
          = map_of (CopyDataProperties (CreateDataProperty target k v) source)"
    by (simp add: CopyDataProperties_def p)
  also have "\<dots> = (map_of target)(k \<mapsto> v) ++ map_of source"
    by (simp only: Cons.IH [OF d] map_of_CreateDataProperty)
  also have "\<dots> = map_of target ++ map_of (p # source)"
  proof (rule ext)
    fix x
    from k have "map_of source k = None" by (simp add: map_of_eq_None_iff)
    then show "((map_of target)(k \<mapsto> v) ++ map_of source) x
                 = (map_of target ++ map_of (p # source)) x"
      by (auto simp: map_add_def p split: option.splits)
  qed
  finally show ?case .
qed

lemma map_of_spread:
  assumes "distinct (map fst a)" and "distinct (map fst b)"
  shows "map_of (spread a b) = shallow_merge (map_of a) (map_of b)"
proof -
  have "map_of (CopyDataProperties [] a) = map_of a"
    using map_of_CopyDataProperties [OF assms(1), of "[]"] by simp
  then have "map_of (spread a b) = map_of a ++ map_of b"
    by (simp add: spread_def map_of_CopyDataProperties [OF assms(2)])
  then show ?thesis
    by (simp add: shallow_merge_def map_add_def fun_eq_iff split: option.splits)
qed

lemma Get_cong: "map_of a = map_of b \<Longrightarrow> Get a = Get b"
  by (simp add: Get_def fun_eq_iff)

lemma Get_spread:
  assumes "distinct (map fst a)" and "distinct (map fst b)"
  shows "Get (spread a b) k = (if k \<in> fst ` set b then Get b k else Get a k)"
proof (cases "map_of b k")
  case None
  then have "k \<notin> fst ` set b" by (simp add: map_of_eq_None_iff)
  with None show ?thesis
    by (simp add: Get_def map_of_spread [OF assms] shallow_merge_def)
next
  case (Some v)
  then have "k \<in> fst ` set b" by (metis map_of_eq_None_iff option.distinct(1))
  with Some show ?thesis
    by (simp add: Get_def map_of_spread [OF assms] shallow_merge_def)
qed

lemma spread_empty:
  assumes "distinct (map fst a)"
  shows "Get (spread a []) = Get a"
  by (rule Get_cong) (simp add: map_of_spread [OF assms] shallow_merge_def)

section \<open>Properties of the platform operations\<close>

lemma CreateDateTimeFormat_cong:
  "Get a = Get b \<Longrightarrow> CreateDateTimeFormat P l a req dflt = CreateDateTimeFormat P l b req dflt"
  by (simp add: CreateDateTimeFormat_def cong: sum.case_cong)

lemma toLocaleDateString_cong:
  "Get a = Get b \<Longrightarrow> toLocaleDateString P x l a = toLocaleDateString P x l b"
  by (simp add: toLocaleDateString_def CreateDateTimeFormat_cong [of a b] cong: option.case_cong)

lemma FormatDateTime_get_format [simp]:
  "FormatDateTime P (get_format f) x = FormatDateTime P f x"
  by (simp add: FormatDateTime_def get_format_def cong: option.case_cong)

lemma FormatDateTime_cong:
  "resolved f = resolved g \<Longrightarrow> pattern f = pattern g \<Longrightarrow>
     FormatDateTime P f x = FormatDateTime P g x"
  by (simp add: FormatDateTime_def cong: option.case_cong)

lemma FormatDateTime_invalid [simp]: "FormatDateTime P f None = Inl RangeError"
  by (simp add: FormatDateTime_def TimeClip_def)

lemma toLocaleDateString_invalid [simp]: "toLocaleDateString P None l opts = Inr ''Invalid Date''"
  by (simp add: toLocaleDateString_def)

lemma get_format_fields [simp]:
  "resolved (get_format f) = resolved f" "pattern (get_format f) = pattern f"
  by (simp_all add: get_format_def)


lemma parse_2024_04_23: "parse_utc_date_time ''2024-04-23T00:00:00Z'' = Some 1713830400000"
  by code_simp

text \<open>
  Which fields a formatter takes from the options depends only on which of them are
  defined, and the two ways of creating a formatter part only where \<open>required\<close> is
  consulted.
\<close>

lemma GetOption_Inr:
  "GetOption P g k = Inr v \<Longrightarrow> (v \<noteq> None) = (g k \<noteq> None)"
  by (cases "g k"; cases "CoerceOption P k (the (g k))") (auto simp: GetOption_def)

lemma read_components_defined:
  "read_components P g props = Inr fo \<Longrightarrow>
     is_defined fo p = (p \<in> set props \<and> g p \<noteq> None)"
proof (induction props arbitrary: fo)
  case Nil
  then show ?case by (simp add: is_defined_def)
next
  case (Cons k ks)
  from Cons.prems obtain v rest where
    v: "GetOption P g k = Inr v" and
    rest: "read_components P g ks = Inr rest" and
    fo: "fo = (k, v) # rest"
    by (auto split: sum.splits)
  show ?case
  proof (cases "p = k")
    case True
    then show ?thesis
      using GetOption_Inr [OF v] by (cases v) (simp_all add: fo is_defined_def)
  next
    case False
    then show ?thesis
      using Cons.IH [OF rest] by (simp add: fo is_defined_def)
  qed
qed

lemma list_ex_defined:
  assumes "read_components P g component_props = Inr fo"
    and "set props \<subseteq> set component_props"
  shows "list_ex (is_defined fo) props = list_ex (\<lambda>p. g p \<noteq> None) props"
  using assms(2) by (auto simp: list_ex_iff read_components_defined [OF assms(1)])

lemma date_props_subset: "set date_props \<subseteq> set component_props"
  by (simp add: date_props_def component_props_def)

lemma time_props_subset: "set time_props \<subseteq> set component_props"
  by (simp add: time_props_def component_props_def)

lemma list_ex_mono_set: "set xs \<subseteq> set ys \<Longrightarrow> list_ex Q xs \<Longrightarrow> list_ex Q ys"
  by (auto simp: list_ex_iff)

lemma CreateDateTimeFormat_required:
  assumes "list_ex (\<lambda>p. Get opts p \<noteq> None) date_props
           \<or> (Get opts ''timeStyle'' = None \<and> \<not> list_ex (\<lambda>p. Get opts p \<noteq> None) time_props)"
  shows "CreateDateTimeFormat P l opts ReqDate DefDate = CreateDateTimeFormat P l opts ReqAny DefDate"
proof (cases "read_components P (Get opts) component_props")
  case (Inl e)
  then show ?thesis by (simp add: CreateDateTimeFormat_def cong: sum.case_cong)
next
  case (Inr fo)
  note d = list_ex_defined [OF Inr date_props_subset]
  note t = list_ex_defined [OF Inr time_props_subset]
  note c = list_ex_defined [OF Inr subset_refl]
  show ?thesis
  proof (cases "GetOption P (Get opts) ''timeStyle''")
    case (Inl e)
    then show ?thesis by (simp add: CreateDateTimeFormat_def Inr cong: sum.case_cong)
  next
    case ts: (Inr timeStyle)
    from assms show ?thesis
    proof
      assume a: "list_ex (\<lambda>p. Get opts p \<noteq> None) date_props"
      then have "list_ex (is_defined fo) component_props"
        using d list_ex_mono_set [OF date_props_subset] by blast
      with a d show ?thesis
        by (auto simp: CreateDateTimeFormat_def Inr ts needDefaults_def split: sum.splits)
    next
      assume a: "Get opts ''timeStyle'' = None \<and> \<not> list_ex (\<lambda>p. Get opts p \<noteq> None) time_props"
      then have "timeStyle = None" using GetOption_Inr [OF ts] by simp
      with a t show ?thesis
        by (auto simp: CreateDateTimeFormat_def Inr ts needDefaults_def split: sum.splits)
    qed
  qed
qed

text \<open>The time value of a date is in range, so formatting it renders it.\<close>

lemma TimeClipNumber_range:
  assumes "TimeClipNumber n = Some t"
  shows "\<bar>t\<bar> \<le> maxTime"
proof (cases n)
  case (Finite r)
  with assms have r: "\<bar>r\<bar> \<le> of_int maxTime" and t: "t = (if r < 0 then \<lceil>r\<rceil> else \<lfloor>r\<rfloor>)"
    by (auto simp: TimeClipNumber_def split: if_splits)
  show ?thesis
  proof (cases "r < 0")
    case True
    then have "\<lceil>r\<rceil> \<le> 0" by (simp add: ceiling_le_zero)
    moreover have "- of_int maxTime \<le> r" using r by linarith
    then have "- maxTime \<le> \<lceil>r\<rceil>"
      by (metis le_of_int_ceiling of_int_le_iff of_int_minus order_trans)
    ultimately show ?thesis using True t by simp
  next
    case False
    then have "0 \<le> \<lfloor>r\<rfloor>" by simp
    moreover have "r \<le> of_int maxTime" using r by linarith
    then have "\<lfloor>r\<rfloor> \<le> maxTime"
      by (metis of_int_floor_le of_int_le_iff order_trans)
    ultimately show ?thesis using False t by simp
  qed
qed (use assms in \<open>simp_all add: TimeClipNumber_def\<close>)

lemma TimeClip_range: "TimeClip x = Some t \<Longrightarrow> \<bar>t\<bar> \<le> maxTime"
  by (auto simp: TimeClip_def split: option.splits if_splits)

lemma new_Date_range: "new_Date P date = Some t \<Longrightarrow> \<bar>t\<bar> \<le> maxTime"
  by (cases date) (auto simp: new_Date_def dest: TimeClip_range TimeClipNumber_range)

lemma FormatDateTime_valid:
  "new_Date P date = Some t \<Longrightarrow>
     FormatDateTime P f (Some t) = Inr (FormatPattern P (resolved f) (pattern f) t)"
  using new_Date_range [of P date t] by (simp add: FormatDateTime_def TimeClip_def)

section \<open>Properties of getFormattedDate\<close>

lemma getFormattedDate_None:
  "fst (getFormattedDate P m date None) = FormatDateTime P (dateFormat m) (new_Date P date)"
  by (simp add: getFormattedDate_def Let_def)

lemma getFormattedDate_Some:
  "fst (getFormattedDate P m date (Some opts))
     = toLocaleDateString P (new_Date P date) (date_locale (siteConfig m))
         (spread (date_options (siteConfig m)) opts)"
  by (simp add: getFormattedDate_def)

lemma getFormattedDate_state:
  "siteConfig (snd (getFormattedDate P m date options)) = siteConfig m
   \<and> resolved (dateFormat (snd (getFormattedDate P m date options))) = resolved (dateFormat m)
   \<and> pattern (dateFormat (snd (getFormattedDate P m date options))) = pattern (dateFormat m)"
  by (cases options) (simp_all add: getFormattedDate_def Let_def)

lemma run_calls_state:
  "siteConfig (run_calls P m calls) = siteConfig m
   \<and> resolved (dateFormat (run_calls P m calls)) = resolved (dateFormat m)
   \<and> pattern (dateFormat (run_calls P m calls)) = pattern (dateFormat m)"
proof (induction calls arbitrary: m)
  case Nil
  show ?case by simp
next
  case (Cons c calls)
  obtain date options where c: "c = (date, options)" by (cases c)
  show ?case
    using Cons.IH [of "snd (getFormattedDate P m date options)"]
      getFormattedDate_state [of P m date options]
    by (simp add: c)
qed

lemma getFormattedDate_state_indep:
  assumes "siteConfig m' = siteConfig m"
    and "resolved (dateFormat m') = resolved (dateFormat m)"
    and "pattern (dateFormat m') = pattern (dateFormat m)"
  shows "fst (getFormattedDate P m' date options) = fst (getFormattedDate P m date options)"
proof (cases options)
  case None
  then show ?thesis
    using FormatDateTime_cong [OF assms(2,3)] by (simp add: getFormattedDate_None)
next
  case (Some opts)
  then show ?thesis by (simp add: getFormattedDate_Some assms(1))
qed


lemma load_date_module_Inr:
  assumes "load_date_module P cfg = Inr m"
  shows "siteConfig m = cfg"
    and "new_DateTimeFormat P (date_locale cfg) (date_options cfg) = Inr (dateFormat m)"
  using assms by (auto simp: load_date_module_def split: sum.splits)

lemma cached_is_one_shot:
  assumes load: "load_date_module P cfg = Inr m"
    and t: "new_Date P date = Some t"
    and fields: "list_ex (\<lambda>p. Get (date_options cfg) p \<noteq> None) date_props
           \<or> (Get (date_options cfg) ''timeStyle'' = None
               \<and> \<not> list_ex (\<lambda>p. Get (date_options cfg) p \<noteq> None) time_props)"
  shows "FormatDateTime P (dateFormat m) (Some t)
           = toLocaleDateString P (Some t) (date_locale cfg) (date_options cfg)"
proof -
  have "CreateDateTimeFormat P (date_locale cfg) (date_options cfg) ReqDate DefDate
             = Inr (dateFormat m)"
    using load_date_module_Inr(2) [OF load]
    by (simp add: new_DateTimeFormat_def
        CreateDateTimeFormat_required [OF fields, of P "date_locale cfg"])
  then show ?thesis by (simp add: toLocaleDateString_def)
qed

text \<open>The concrete platform: evaluations used by the examples below.\<close>

lemma sample_load: "load_date_module sample_platform sample_config = Inr sample_module"
  by code_simp

lemma sample_direct:
  "direct_format sample_platform sample_config (DateString ''2024-04-23T00:00:00Z'')
     = Inr ''April 23, 2024''"
  by code_simp

lemma sample_cached:
  "fst (getFormattedDate sample_platform sample_module (DateString ''2024-04-23T00:00:00Z'') None)
     = Inr ''April 23, 2024''"
  by code_simp

lemma sample_merged:
  "map_of [(''month'', Some ''short''), (''day'', Some ''numeric''), (''year'', Some ''numeric'')]
     = shallow_merge (map_of (date_options (siteConfig sample_module)))
         (map_of [(''month'', Some ''short'')])"
  by (auto simp: shallow_merge_def sample_module_def sample_config_def fun_eq_iff)

lemma sample_short:
  "toLocaleDateString sample_platform
     (new_Date sample_platform (DateString ''2024-04-23T00:00:00Z''))
     (date_locale (siteConfig sample_module))
     [(''month'', Some ''short''), (''day'', Some ''numeric''), (''year'', Some ''numeric'')]
   = Inr ''Apr 23, 2024''"
  by code_simp

lemma sample_parse:
  "Date_parse sample_platform ''2024-04-23T00:00:00Z'' = Some 1713830400000"
  by (simp add: Date_parse_def parse_2024_04_23)

lemma sample_valid:
  "new_Date sample_platform (DateString ''2024-04-23T00:00:00Z'') \<noteq> None"
  by (simp add: new_Date_def sample_parse TimeClip_def maxTime_def)

lemma sample_fields:
  "list_ex (\<lambda>p. Get (date_options sample_config) p \<noteq> None) date_props
   \<or> (Get (date_options sample_config) ''timeStyle'' = None
       \<and> \<not> list_ex (\<lambda>p. Get (date_options sample_config) p \<noteq> None) time_props)"
  by (simp add: sample_config_def date_props_def Get_def)

lemma sample_new_Date:
  "new_Date sample_platform (DateString ''2024-04-23T00:00:00Z'') = Some 1713830400000"
  by (simp add: new_Date_def sample_parse TimeClip_def maxTime_def)

lemma sample_pattern_value:
  "FormatPattern sample_platform (resolved (dateFormat sample_module))
     (pattern (dateFormat sample_module)) 1713830400000 = ''April 23, 2024''"
  by code_simp

lemma sample_override_value:
  "(case CreateDateTimeFormat sample_platform (date_locale (siteConfig sample_module))
           (spread (date_options (siteConfig sample_module)) [(''month'', Some ''short'')])
           ReqDate DefDate of
      Inl e \<Rightarrow> Inl e
    | Inr f \<Rightarrow> Inr (FormatPattern sample_platform (resolved f) (pattern f) 1713830400000))
   = Inr ''Apr 23, 2024''"
  by code_simp

text \<open>
  C1, as stated, fails: for an input that gives an invalid date, here a number just
  outside the range of time values, the call without options throws a \<^verbatim>\<open>RangeError\<close>,
  while formatting in one shot with the configured locale and options returns the
  string \<^verbatim>\<open>"Invalid Date"\<close>.
\<close>

theorem default_formatter_one_shot_counterexample:
  "load_date_module sample_platform sample_config = Inr sample_module
   \<and> fst (getFormattedDate sample_platform sample_module
            (DateNumber (Finite 8640000000000001)) None) = Inl RangeError
   \<and> direct_format sample_platform sample_config (DateNumber (Finite 8640000000000001))
       = Inr ''Invalid Date''"
proof -
  have n: "new_Date sample_platform (DateNumber (Finite 8640000000000001)) = None"
    by (simp add: new_Date_def TimeClipNumber_def maxTime_def)
  show ?thesis
    by (simp add: sample_load getFormattedDate_None direct_format_def n)
qed

text \<open>The same on every platform, in every state and for every configuration.\<close>

lemma one_shot_invalid_differs:
  assumes "new_Date P date = None"
  shows "fst (getFormattedDate P m date None) = Inl RangeError"
    and "direct_format P cfg date = Inr ''Invalid Date''"
  by (simp_all add: getFormattedDate_None direct_format_def assms)

text \<open>
  C1, amended.  After the module has loaded, and after any sequence of earlier calls,
  the formatter in use has the resolved data and the pattern of a formatter created from
  exactly \<^verbatim>\<open>siteConfig.date.locale\<close> and \<^verbatim>\<open>siteConfig.date.options\<close>, and the configuration
  is unchanged.  For an input that gives a valid date, and a configuration whose options
  define at least one of \<^verbatim>\<open>weekday\<close>, \<^verbatim>\<open>year\<close>, \<^verbatim>\<open>month\<close>, \<^verbatim>\<open>day\<close>, or define neither
  \<^verbatim>\<open>timeStyle\<close> nor any of \<^verbatim>\<open>dayPeriod\<close>, \<^verbatim>\<open>hour\<close>, \<^verbatim>\<open>minute\<close>, \<^verbatim>\<open>second\<close>,
  \<^verbatim>\<open>fractionalSecondDigits\<close>, a call without options returns exactly what formatting the
  date in one shot with the configured locale and options returns.
\<close>

theorem default_formatter_matches_one_shot:
  assumes load: "load_date_module P cfg = Inr m"
    and valid: "new_Date P date \<noteq> None"
    and fields: "list_ex (\<lambda>p. Get (date_options cfg) p \<noteq> None) date_props
           \<or> (Get (date_options cfg) ''timeStyle'' = None
               \<and> \<not> list_ex (\<lambda>p. Get (date_options cfg) p \<noteq> None) time_props)"
  shows "fst (getFormattedDate P (run_calls P m calls) date None) = direct_format P cfg date
       \<and> siteConfig (run_calls P m calls) = cfg
       \<and> (\<exists>f. new_DateTimeFormat P (date_locale cfg) (date_options cfg) = Inr f
              \<and> resolved (dateFormat (run_calls P m calls)) = resolved f
              \<and> pattern (dateFormat (run_calls P m calls)) = pattern f)"
proof (intro conjI)
  let ?m = "run_calls P m calls"
  note st = run_calls_state [of P m calls]
  from valid obtain t where t: "new_Date P date = Some t" by blast
  have "fst (getFormattedDate P ?m date None) = FormatDateTime P (dateFormat ?m) (Some t)"
    by (simp add: getFormattedDate_None t)
  also have "\<dots> = FormatDateTime P (dateFormat m) (Some t)"
    using st by (intro FormatDateTime_cong) simp_all
  also have "\<dots> = direct_format P cfg date"
    unfolding direct_format_def t by (rule cached_is_one_shot [OF load t fields])
  finally show "fst (getFormattedDate P ?m date None) = direct_format P cfg date" .
  show "siteConfig ?m = cfg"
    using st load_date_module_Inr(1) [OF load] by simp
  show "\<exists>f. new_DateTimeFormat P (date_locale cfg) (date_options cfg) = Inr f
              \<and> resolved (dateFormat ?m) = resolved f
              \<and> pattern (dateFormat ?m) = pattern f"
    using st load_date_module_Inr(2) [OF load] by blast
qed

theorem default_formatter_matches_one_shot_witness:
  "load_date_module sample_platform sample_config = Inr sample_module
   \<and> new_Date sample_platform (DateString ''2024-04-23T00:00:00Z'') \<noteq> None
   \<and> (list_ex (\<lambda>p. Get (date_options sample_config) p \<noteq> None) date_props
       \<or> (Get (date_options sample_config) ''timeStyle'' = None
           \<and> \<not> list_ex (\<lambda>p. Get (date_options sample_config) p \<noteq> None) time_props))
   \<and> fst (getFormattedDate sample_platform
            (run_calls sample_platform sample_module
               [(DateNumber NaN, None),
                (DateString ''2024-04-23T00:00:00Z'', Some [(''month'', Some ''short'')])])
            (DateString ''2024-04-23T00:00:00Z'') None)
       = Inr ''April 23, 2024''"
proof -
  from default_formatter_matches_one_shot [OF sample_load sample_valid sample_fields,
      of "[(DateNumber NaN, None),
           (DateString ''2024-04-23T00:00:00Z'', Some [(''month'', Some ''short'')])]"]
  have "fst (getFormattedDate sample_platform
            (run_calls sample_platform sample_module
               [(DateNumber NaN, None),
                (DateString ''2024-04-23T00:00:00Z'', Some [(''month'', Some ''short'')])])
            (DateString ''2024-04-23T00:00:00Z'') None)
       = Inr ''April 23, 2024''"
    by (simp only: sample_direct)
  then show ?thesis
    using sample_load sample_valid sample_fields by blast
qed

text \<open>
  C2.  A call with options \<open>opts\<close> returns what \<^verbatim>\<open>toLocaleDateString\<close> returns for
  \<^verbatim>\<open>new Date(date)\<close>, the configured locale and the shallow merge of the configured
  options with \<open>opts\<close>: the object that the spread builds is that merge, any other
  object with the same properties gives the same result, and each property is taken
  from \<open>opts\<close> when \<open>opts\<close> has it (also with the value \<^verbatim>\<open>undefined\<close>) and from the
  configuration otherwise.
\<close>

theorem override_uses_shallow_merge:
  assumes a: "distinct (map fst (date_options (siteConfig m)))"
    and b: "distinct (map fst opts)"
  shows "map_of (spread (date_options (siteConfig m)) opts)
           = shallow_merge (map_of (date_options (siteConfig m))) (map_of opts)
       \<and> (\<forall>merged. map_of merged
                      = shallow_merge (map_of (date_options (siteConfig m))) (map_of opts) \<longrightarrow>
            fst (getFormattedDate P m date (Some opts))
              = toLocaleDateString P (new_Date P date) (date_locale (siteConfig m)) merged)
       \<and> (\<forall>k. Get (spread (date_options (siteConfig m)) opts) k
                = (if k \<in> fst ` set opts then Get opts k
                   else Get (date_options (siteConfig m)) k))"
proof (intro conjI allI impI)
  show m: "map_of (spread (date_options (siteConfig m)) opts)
           = shallow_merge (map_of (date_options (siteConfig m))) (map_of opts)"
    by (rule map_of_spread [OF a b])
  fix merged :: "'a jsobject"
  assume "map_of merged = shallow_merge (map_of (date_options (siteConfig m))) (map_of opts)"
  then have "Get (spread (date_options (siteConfig m)) opts) = Get merged"
    using m by (intro Get_cong) simp
  then show "fst (getFormattedDate P m date (Some opts))
              = toLocaleDateString P (new_Date P date) (date_locale (siteConfig m)) merged"
    unfolding getFormattedDate_Some by (rule toLocaleDateString_cong)
next
  fix k
  show "Get (spread (date_options (siteConfig m)) opts) k
                = (if k \<in> fst ` set opts then Get opts k
                   else Get (date_options (siteConfig m)) k)"
    by (rule Get_spread [OF a b])
qed

theorem override_uses_shallow_merge_witness:
  "distinct (map fst (date_options (siteConfig sample_module)))
   \<and> distinct (map fst [(''month'', Some ''short'')])
   \<and> map_of [(''month'', Some ''short''), (''day'', Some ''numeric''), (''year'', Some ''numeric'')]
       = shallow_merge (map_of (date_options (siteConfig sample_module)))
           (map_of [(''month'', Some ''short'')])
   \<and> fst (getFormattedDate sample_platform sample_module
            (DateString ''2024-04-23T00:00:00Z'') (Some [(''month'', Some ''short'')]))
       = Inr ''Apr 23, 2024''"
proof -
  have a: "distinct (map fst (date_options (siteConfig sample_module)))"
    by (simp add: sample_module_def sample_config_def)
  have b: "distinct (map fst [(''month'', Some ''short'')])" by simp
  from override_uses_shallow_merge [OF a b, of sample_platform "DateString ''2024-04-23T00:00:00Z''"]
  have "fst (getFormattedDate sample_platform sample_module
            (DateString ''2024-04-23T00:00:00Z'') (Some [(''month'', Some ''short'')]))
       = toLocaleDateString sample_platform
           (new_Date sample_platform (DateString ''2024-04-23T00:00:00Z''))
           (date_locale (siteConfig sample_module))
           [(''month'', Some ''short''), (''day'', Some ''numeric''), (''year'', Some ''numeric'')]"
    using sample_merged by blast
  with a b sample_merged show ?thesis by (simp only: sample_short simp_thms)
qed

text \<open>
  C7, as stated, fails: the function does not always yield a string.  Without options
  an unparseable string makes the call throw the \<^verbatim>\<open>RangeError\<close> of \<^verbatim>\<open>format\<close>, and with
  the option \<^verbatim>\<open>dateStyle\<close> merged into configured \<^verbatim>\<open>year\<close>, \<^verbatim>\<open>month\<close>, \<^verbatim>\<open>day\<close> a valid date
  makes it throw the \<^verbatim>\<open>TypeError\<close> of \<^verbatim>\<open>toLocaleDateString\<close>.
\<close>

theorem getFormattedDate_not_always_string:
  "fst (getFormattedDate sample_platform sample_module (DateString ''not a date'') None)
     = Inl RangeError
   \<and> fst (getFormattedDate sample_platform sample_module (DateString ''2024-04-23T00:00:00Z'')
            (Some [(''dateStyle'', Some ''short'')]))
       = Inl TypeError"
  by code_simp

text \<open>
  C7, amended.  The function neither rejects nor corrects its input and neither adds
  nor hides an error.  For an input that gives an invalid date, the call without options
  throws the \<^verbatim>\<open>RangeError\<close> of \<^verbatim>\<open>format\<close> and the call with options returns the string
  \<^verbatim>\<open>"Invalid Date"\<close>.  For an input that gives a valid date, the call without options
  returns the rendering of that time value by the module's formatter, and the call with
  options returns its rendering by the formatter that \<^verbatim>\<open>toLocaleDateString\<close> creates
  for the merged options, or throws the error of creating that formatter.  The
  configuration is left as it was.
\<close>

theorem getFormattedDate_outcomes:
  "(new_Date P date = None \<longrightarrow>
      fst (getFormattedDate P m date None) = Inl RangeError
      \<and> fst (getFormattedDate P m date (Some opts)) = Inr ''Invalid Date'')
   \<and> (\<forall>t. new_Date P date = Some t \<longrightarrow>
         fst (getFormattedDate P m date None)
           = Inr (FormatPattern P (resolved (dateFormat m)) (pattern (dateFormat m)) t)
         \<and> fst (getFormattedDate P m date (Some opts))
             = (case CreateDateTimeFormat P (date_locale (siteConfig m))
                       (spread (date_options (siteConfig m)) opts) ReqDate DefDate of
                  Inl e \<Rightarrow> Inl e
                | Inr f \<Rightarrow> Inr (FormatPattern P (resolved f) (pattern f) t)))
   \<and> siteConfig (snd (getFormattedDate P m date options)) = siteConfig m"
proof (intro conjI allI impI)
  assume "new_Date P date = None"
  then show "fst (getFormattedDate P m date None) = Inl RangeError"
    and "fst (getFormattedDate P m date (Some opts)) = Inr ''Invalid Date''"
    by (simp_all add: getFormattedDate_None getFormattedDate_Some)
next
  fix t assume t: "new_Date P date = Some t"
  show "fst (getFormattedDate P m date None)
           = Inr (FormatPattern P (resolved (dateFormat m)) (pattern (dateFormat m)) t)"
    by (simp add: getFormattedDate_None t FormatDateTime_valid [OF t])
  show "fst (getFormattedDate P m date (Some opts))
             = (case CreateDateTimeFormat P (date_locale (siteConfig m))
                       (spread (date_options (siteConfig m)) opts) ReqDate DefDate of
                  Inl e \<Rightarrow> Inl e
                | Inr f \<Rightarrow> Inr (FormatPattern P (resolved f) (pattern f) t))"
    by (simp add: getFormattedDate_Some t toLocaleDateString_def FormatDateTime_valid [OF t]
        split: sum.splits)
next
  show "siteConfig (snd (getFormattedDate P m date options)) = siteConfig m"
    using getFormattedDate_state [of P m date options] by simp
qed

theorem getFormattedDate_outcomes_witness:
  "new_Date sample_platform (DateNumber PosInfinity) = None
   \<and> fst (getFormattedDate sample_platform sample_module (DateNumber PosInfinity) None)
       = Inl RangeError
   \<and> fst (getFormattedDate sample_platform sample_module (DateNumber PosInfinity)
            (Some [(''month'', Some ''short'')]))
       = Inr ''Invalid Date''
   \<and> new_Date sample_platform (DateString ''2024-04-23T00:00:00Z'') = Some 1713830400000
   \<and> fst (getFormattedDate sample_platform sample_module
            (DateString ''2024-04-23T00:00:00Z'') None)
       = Inr ''April 23, 2024''
   \<and> fst (getFormattedDate sample_platform sample_module
            (DateString ''2024-04-23T00:00:00Z'') (Some [(''month'', Some ''short'')]))
       = Inr ''Apr 23, 2024''"
proof -
  have n: "new_Date sample_platform (DateNumber PosInfinity) = None"
    by (simp add: new_Date_def TimeClipNumber_def)
  note a = getFormattedDate_outcomes [of sample_platform "DateNumber PosInfinity" sample_module
      "[(''month'', Some ''short'')]" None]
  note b = getFormattedDate_outcomes [of sample_platform "DateString ''2024-04-23T00:00:00Z''"
      sample_module "[(''month'', Some ''short'')]" None]
  from a n have
    "fst (getFormattedDate sample_platform sample_module (DateNumber PosInfinity) None)
       = Inl RangeError"
    "fst (getFormattedDate sample_platform sample_module (DateNumber PosInfinity)
            (Some [(''month'', Some ''short'')]))
       = Inr ''Invalid Date''"
    by blast+
  moreover from b sample_new_Date have
    "fst (getFormattedDate sample_platform sample_module
            (DateString ''2024-04-23T00:00:00Z'') None)
       = Inr ''April 23, 2024''"
    "fst (getFormattedDate sample_platform sample_module
            (DateString ''2024-04-23T00:00:00Z'') (Some [(''month'', Some ''short'')]))
       = Inr ''Apr 23, 2024''"
    by (simp_all only: sample_pattern_value sample_override_value simp_thms)
  ultimately show ?thesis using n sample_new_Date by blast
qed



text \<open>
  C9.  The result of a call depends on its arguments, the configuration and the
  platform only: after any sequence of earlier calls the same call returns the same
  result.  Calls leave the configuration and the formatter's resolved data and pattern
  unchanged; the only write is the formatter's bound-function slot, which no call reads
  for its result.
\<close>

theorem getFormattedDate_deterministic:
  "fst (getFormattedDate P (run_calls P m calls) date options)
     = fst (getFormattedDate P m date options)
   \<and> siteConfig (run_calls P m calls) = siteConfig m
   \<and> resolved (dateFormat (run_calls P m calls)) = resolved (dateFormat m)
   \<and> pattern (dateFormat (run_calls P m calls)) = pattern (dateFormat m)"
proof -
  note st = run_calls_state [of P m calls]
  have "fst (getFormattedDate P (run_calls P m calls) date options)
          = fst (getFormattedDate P m date options)"
    using st by (intro getFormattedDate_state_indep) simp_all
  with st show ?thesis by simp
qed

theorem getFormattedDate_deterministic_witness:
  "fst (getFormattedDate sample_platform
          (run_calls sample_platform sample_module
             [(DateString ''2024-04-23T00:00:00Z'', None), (DateNumber NaN, Some [])])
          (DateString ''2024-04-23T00:00:00Z'') None)
     = Inr ''April 23, 2024''
   \<and> siteConfig (run_calls sample_platform sample_module
                    [(DateString ''2024-04-23T00:00:00Z'', None), (DateNumber NaN, Some [])])
       = sample_config"
  using getFormattedDate_deterministic [of sample_platform sample_module
      "[(DateString ''2024-04-23T00:00:00Z'', None), (DateNumber NaN, Some [])]"
      "DateString ''2024-04-23T00:00:00Z''" None]
  by (simp add: sample_cached) (simp add: sample_module_def)

text \<open>
  C10, as stated, fails: for an input that gives an invalid date, here the number
  \<^verbatim>\<open>NaN\<close>, the call with the empty options object returns the string
  \<^verbatim>\<open>"Invalid Date"\<close> and the call without options throws a \<^verbatim>\<open>RangeError\<close>.
\<close>

theorem empty_override_counterexample:
  "load_date_module sample_platform sample_config = Inr sample_module
   \<and> fst (getFormattedDate sample_platform sample_module (DateNumber NaN) (Some []))
       = Inr ''Invalid Date''
   \<and> fst (getFormattedDate sample_platform sample_module (DateNumber NaN) None)
       = Inl RangeError
   \<and> fst (getFormattedDate sample_platform sample_module (DateNumber NaN) (Some []))
       \<noteq> fst (getFormattedDate sample_platform sample_module (DateNumber NaN) None)"
proof -
  have n: "new_Date sample_platform (DateNumber NaN) = None"
    by (simp add: new_Date_def TimeClipNumber_def)
  show ?thesis
    by (simp add: sample_load getFormattedDate_None getFormattedDate_Some n)
qed

text \<open>The same on every platform and in every state of the module.\<close>

lemma invalid_date_paths_differ:
  assumes "new_Date P date = None"
  shows "fst (getFormattedDate P m date (Some opts)) \<noteq> fst (getFormattedDate P m date None)"
  by (simp add: getFormattedDate_None getFormattedDate_Some assms)

text \<open>
  The two paths create their formatters differently as well: with only a time field
  configured, \<^verbatim>\<open>toLocaleDateString\<close> adds the date fields and the constructor does not.
\<close>

lemma required_matters:
  "CreateDateTimeFormat sample_platform ''en-US'' [(''hour'', Some ''numeric'')] ReqDate DefDate
     \<noteq> CreateDateTimeFormat sample_platform ''en-US'' [(''hour'', Some ''numeric'')] ReqAny DefDate"
  by code_simp

text \<open>
  C10, amended.  For an input that gives a valid date, and a configuration whose
  options define at least one of \<^verbatim>\<open>weekday\<close>, \<^verbatim>\<open>year\<close>, \<^verbatim>\<open>month\<close>, \<^verbatim>\<open>day\<close>, or define
  neither \<^verbatim>\<open>timeStyle\<close> nor any of \<^verbatim>\<open>dayPeriod\<close>, \<^verbatim>\<open>hour\<close>, \<^verbatim>\<open>minute\<close>, \<^verbatim>\<open>second\<close>,
  \<^verbatim>\<open>fractionalSecondDigits\<close>, the call with the empty options object returns the same
  as the call without options.
\<close>

theorem empty_override_agrees_on_valid_dates:
  assumes load: "load_date_module P cfg = Inr m"
    and dist: "distinct (map fst (date_options cfg))"
    and valid: "new_Date P date \<noteq> None"
    and fields: "list_ex (\<lambda>p. Get (date_options cfg) p \<noteq> None) date_props
           \<or> (Get (date_options cfg) ''timeStyle'' = None
               \<and> \<not> list_ex (\<lambda>p. Get (date_options cfg) p \<noteq> None) time_props)"
  shows "fst (getFormattedDate P (run_calls P m calls) date (Some []))
           = fst (getFormattedDate P (run_calls P m calls) date None)"
proof -
  let ?m = "run_calls P m calls"
  from valid obtain t where t: "new_Date P date = Some t" by blast
  have cfg: "siteConfig ?m = cfg"
    using run_calls_state [of P m calls] load_date_module_Inr(1) [OF load] by simp
  have f: "CreateDateTimeFormat P (date_locale cfg) (date_options cfg) ReqDate DefDate
             = Inr (dateFormat m)"
    using load_date_module_Inr(2) [OF load]
    by (simp add: new_DateTimeFormat_def
        CreateDateTimeFormat_required [OF fields, of P "date_locale cfg"])
  have "fst (getFormattedDate P ?m date (Some []))
          = toLocaleDateString P (Some t) (date_locale cfg) (spread (date_options cfg) [])"
    by (simp add: getFormattedDate_Some cfg t)
  also have "\<dots> = toLocaleDateString P (Some t) (date_locale cfg) (date_options cfg)"
    by (rule toLocaleDateString_cong) (rule spread_empty [OF dist])
  also have "\<dots> = FormatDateTime P (dateFormat m) (Some t)"
    by (simp add: toLocaleDateString_def f)
  also have "\<dots> = FormatDateTime P (dateFormat ?m) (Some t)"
    using run_calls_state [of P m calls] by (intro FormatDateTime_cong) simp_all
  also have "\<dots> = fst (getFormattedDate P ?m date None)"
    by (simp add: getFormattedDate_None t)
  finally show ?thesis .
qed

theorem empty_override_agrees_on_valid_dates_witness:
  "load_date_module sample_platform sample_config = Inr sample_module
   \<and> distinct (map fst (date_options sample_config))
   \<and> new_Date sample_platform (DateString ''2024-04-23T00:00:00Z'') \<noteq> None
   \<and> (list_ex (\<lambda>p. Get (date_options sample_config) p \<noteq> None) date_props
       \<or> (Get (date_options sample_config) ''timeStyle'' = None
           \<and> \<not> list_ex (\<lambda>p. Get (date_options sample_config) p \<noteq> None) time_props))
   \<and> fst (getFormattedDate sample_platform (run_calls sample_platform sample_module [])
            (DateString ''2024-04-23T00:00:00Z'') (Some []))
       = Inr ''April 23, 2024''"
proof -
  have d: "distinct (map fst (date_options sample_config))"
    by (simp add: sample_config_def)
  from empty_override_agrees_on_valid_dates [OF sample_load d sample_valid sample_fields, of "[]"]
  have "fst (getFormattedDate sample_platform (run_calls sample_platform sample_module [])
            (DateString ''2024-04-23T00:00:00Z'') (Some []))
       = Inr ''April 23, 2024''"
    by (simp add: sample_cached)
  with d show ?thesis
    using sample_load sample_valid sample_fields by blast
qed

end
